theory Spec2Isabelle
  imports Main
begin

section \<open>The session object of easyTCP2 (Server/Client.py)\<close>

text \<open>
  A shallow embedding of the class \<open>Client\<close>: every coroutine of the class is a function
  from the state of one session (and of the collaborators it touches) to an outcome and
  the state afterwards. An outcome is a returned value, a raised exception, or a
  coroutine that awaits forever. The class is written against the \<open>asyncio\<close> of
  Python 3.9 and earlier (\<open>wait_for\<close> takes \<open>loop\<close>, \<open>wait\<close> takes coroutines), whose
  behaviour the model follows.
\<close>

subsection \<open>Values, exceptions, outcomes\<close>

text \<open>Python values that travel in messages and come back from hooks.\<close>

datatype pyval = PStr string | PInt int | PNone

type_synonym fields = "string \<rightharpoonup> pyval"

datatype exn =
    ValueError | ConnectionResetError | TimeoutError | TypeError | KeyError
  | AttributeError | ProtocolViolation | HandshakeError | Recved404Error
  | HandlerError string

datatype 'a result = Return 'a | Raise exn | Hang

text \<open>
  What \<open>error_codes.get(code, -1)\<close> yields: one of the exception classes of the table,
  or the integer \<open>-1\<close>.
\<close>

datatype errval = ExcClass exn | Sentinel

text \<open>What the peer does next on the connection, seen from \<open>recv\<close>.\<close>

datatype event = Message string fields | Malformed | Reset | Wait nat

text \<open>Work handed to \<open>loop.create_task\<close>: scheduled, never awaited by the session.\<close>

datatype task = CallHook string | Process string fields

text \<open>Log records, as the template of the format string with its arguments.\<close>

datatype logrec =
    LogLeft int
  | LogRequested int string
  | LogRaised int errval
  | LogRegistered string int

subsection \<open>State\<close>

text \<open>
  The collaborators of a session that stay fixed while it runs.
  \<^item> The server's \<open>version\<close> and \<open>supported_versions\<close>.
  \<^item> The object \<open>server.Request\<close>, which \<open>process\<close> probes with \<open>hasattr\<close>:
    \<open>Request\<close> holds the handlers registered on it, \<open>Request_attrs\<close> names its further
    attributes beyond those every Python object has, and \<open>call_other\<close> is the outcome of
    calling an attribute that is not a registered handler with the keyword arguments of
    \<open>process\<close>.
  \<^item> The registered \<open>error\<close> hook.
  \<^item> \<open>as_int\<close>: the integer that the format \<open>%d\<close> obtains from the session object.
    \<open>Client\<close> has no integer conversion of its own, and the classes \<open>Protocol\<close> and
    \<open>ServerClientDecorators\<close> it inherits from are not in the source under study, so
    \<open>as_int\<close> is \<open>None\<close> unless a base class provides one (then \<open>'%d' % self\<close> raises
    \<open>TypeError\<close>).
  \<^item> \<open>Group_remove\<close>: the coroutine \<open>Group.remove\<close>, which is not in the source under
    study. It is given the group, the identifier of the session, and the data a removal
    can reach: the session's own list of groups and the membership collections of all
    groups; it returns both as it leaves them.
\<close>

record env =
  version :: pyval
  supported_versions :: "pyval list"
  Request :: "string \<rightharpoonup> (fields \<Rightarrow> pyval result)"
  Request_attrs :: "string list"
  call_other :: "string \<Rightarrow> fields \<Rightarrow> pyval result"
  error_hook :: "(errval \<Rightarrow> pyval) option"
  as_int :: "int option"
  Group_remove :: "nat \<Rightarrow> int \<Rightarrow> nat list \<times> (nat \<Rightarrow> int list) \<Rightarrow> nat list \<times> (nat \<Rightarrow> int list)"

text \<open>
  The mutable state: the transport (\<open>closed\<close>, what the peer will send, what was sent,
  the time elapsed), the attributes \<open>id\<close>, \<open>addr\<close> and \<open>groups\<close> of the session (groups
  are references, here natural numbers), the membership collection of every group, the
  server's client registry, and what an observer sees: the log, the scheduled tasks, the
  values given to the \<open>error\<close> hook and the handler invocations.
\<close>

record state =
  closed :: bool
  clock :: nat
  inbox :: "event list"
  sent :: "(string \<times> fields) list"
  client_id :: int
  addr :: string
  groups :: "nat list"
  members :: "nat \<Rightarrow> int list"
  registry :: "int list"
  logged :: "logrec list"
  tasks :: "task list"
  signalled :: "errval list"
  invoked :: "(string \<times> fields) list"

type_synonym 'a prog = "state \<Rightarrow> 'a result \<times> state"

text \<open>\<open>await\<close> one coroutine, then the next: an exception or a hang ends the sequence.\<close>

definition and_then :: "'a prog \<Rightarrow> ('a \<Rightarrow> 'b prog) \<Rightarrow> 'b prog" where
  "and_then m f s =
     (case m s of
        (Return x, s') \<Rightarrow> f x s'
      | (Raise e, s') \<Rightarrow> (Raise e, s')
      | (Hang, s') \<Rightarrow> (Hang, s'))"

subsection \<open>Collaborators that are not in the source under study\<close>

text \<open>
  Modelled from the spec: \<open>Protocol.recv\<close> is missing. It blocks until one complete
  message is available and returns its method and fields, or fails with a framing
  error (\<open>ValueError\<close> in \<open>listen\<close>) on malformed data and with a closed connection
  (\<open>ConnectionResetError\<close>) when the peer disconnects. The argument \<open>dl\<close> is the
  absolute deadline of an enclosing \<open>asyncio.wait_for\<close>, if any: when the clock
  reaches it before a message arrives, the wait is cancelled and \<open>TimeoutError\<close> is
  raised. With no deadline and a peer that stays silent, \<open>recv\<close> never returns.
\<close>

fun recv_from :: "nat option \<Rightarrow> nat \<Rightarrow> event list \<Rightarrow> (string \<times> fields) result \<times> nat \<times> event list" where
  "recv_from dl clk [] =
     (case dl of None \<Rightarrow> (Hang, clk, []) | Some d \<Rightarrow> (Raise TimeoutError, d, []))"
| "recv_from dl clk (Wait n # es) =
     (case dl of
        None \<Rightarrow> recv_from dl (clk + n) es
      | Some d \<Rightarrow> if d \<le> clk + n then (Raise TimeoutError, d, es)
                  else recv_from dl (clk + n) es)"
| "recv_from dl clk (Message m f # es) = (Return (m, f), clk, es)"
| "recv_from dl clk (Malformed # es) = (Raise ValueError, clk, es)"
| "recv_from dl clk (Reset # es) = (Raise ConnectionResetError, clk, es)"

text \<open>
  Modelled from the spec: after \<open>close()\<close> any future \<open>recv\<close> or \<open>send\<close> fails with a
  closed connection.
\<close>

definition recv :: "nat option \<Rightarrow> (string \<times> fields) prog" where
  "recv dl s =
     (if closed s then (Raise ConnectionResetError, s)
      else case recv_from dl (clock s) (inbox s) of
             (r, c, es) \<Rightarrow> (r, s\<lparr>clock := c, inbox := es\<rparr>))"

text \<open>
  Modelled from the spec: \<open>Protocol.expected\<close> is missing. It calls \<open>recv\<close> and fails
  with a protocol violation if the received method name does not match.
\<close>

definition expected :: "nat option \<Rightarrow> string \<Rightarrow> (string \<times> fields) prog" where
  "expected dl method =
     and_then (recv dl) (\<lambda>(m, f) s.
       if m = method then (Return (m, f), s) else (Raise ProtocolViolation, s))"

text \<open>
  Modelled from the spec: \<open>Protocol.send\<close> is missing. It writes one message with a
  method name and named fields.
\<close>

definition send :: "string \<Rightarrow> fields \<Rightarrow> unit prog" where
  "send method kwargs s =
     (if closed s then (Raise ConnectionResetError, s)
      else (Return (), s\<lparr>sent := sent s @ [(method, kwargs)]\<rparr>))"

text \<open>
  One \<open>group.remove(self)\<close>, run to completion: whatever \<open>Group.remove\<close> makes of the
  session's list of groups and of the membership collections.
\<close>

definition remove_one :: "env \<Rightarrow> nat \<Rightarrow> state \<Rightarrow> state" where
  "remove_one env g s =
     (case Group_remove env g (client_id s) (groups s, members s) of
        (gs, ms) \<Rightarrow> s\<lparr>groups := gs, members := ms\<rparr>)"

text \<open>
  Modelled from the spec: \<open>server.add_client\<close> is missing. It adds the session to the
  server's client registry.
\<close>

definition add_client :: "unit prog" where
  "add_client s = (Return (), s\<lparr>registry := registry s @ [client_id s]\<rparr>)"

text \<open>
  Modelled from the spec: the registry of hooks is missing. The answer of the \<open>error\<close>
  hook to a resolved error value is what the registered callback returns; with no
  callback registered the answer is \<open>-1\<close>.
\<close>

definition hook_answer :: "env \<Rightarrow> errval \<Rightarrow> pyval" where
  "hook_answer env error = (case error_hook env of None \<Rightarrow> PInt (- 1) | Some h \<Rightarrow> h error)"

text \<open>
  Modelled from the spec: \<open>ServerClientDecorators.call\<close> is missing. Called for the
  \<open>error\<close> hook, it gives the resolved error value to the hook and returns its answer.
\<close>

definition call_error :: "env \<Rightarrow> errval \<Rightarrow> pyval prog" where
  "call_error env error s =
     (Return (hook_answer env error), s\<lparr>signalled := signalled s @ [error]\<rparr>)"

subsection \<open>Python primitives\<close>

text \<open>\<open>str.lower\<close> on ASCII text.\<close>

definition lower_char :: "char \<Rightarrow> char" where
  "lower_char c =
     (if 65 \<le> (of_char c :: nat) \<and> (of_char c :: nat) \<le> 90
      then char_of ((of_char c :: nat) + 32) else c)"

definition lower :: "string \<Rightarrow> string" where
  "lower st = map lower_char st"

text \<open>
  The statement \<open>raise error\<close>: an exception class is raised; anything else (the integer
  \<open>-1\<close>) makes Python raise \<open>TypeError\<close>, since exceptions must derive from
  \<open>BaseException\<close>.
\<close>

fun py_raise :: "errval \<Rightarrow> exn" where
  "py_raise (ExcClass e) = e"
| "py_raise Sentinel = TypeError"

subsection \<open>The class attribute \<open>error_codes\<close>\<close>

definition error_codes :: "int \<rightharpoonup> exn" where
  "error_codes = [2 \<mapsto> HandshakeError, 6 \<mapsto> Recved404Error]"

subsection \<open>\<open>close\<close> and \<open>kill\<close>\<close>

definition close :: "unit prog" where
  "close s = (Return (), s\<lparr>closed := True\<rparr>)"

text \<open>
  The list \<open>[group.remove(self) for group in self.groups]\<close> is built from the groups
  the session lists at that moment. \<open>asyncio.wait\<close> raises \<open>ValueError\<close> on an empty
  collection. Otherwise it runs every removal to completion, here in the order of the
  list, and keeps their exceptions to itself.
\<close>

definition wait_removals :: "env \<Rightarrow> nat list \<Rightarrow> unit prog" where
  "wait_removals env gs s =
     (if gs = [] then (Raise ValueError, s)
      else (Return (), fold (remove_one env) gs s))"

definition log_left :: "env \<Rightarrow> unit prog" where
  "log_left env s =
     (case as_int env of
        None \<Rightarrow> (Raise TypeError, s)
      | Some n \<Rightarrow> (Return (), s\<lparr>logged := logged s @ [LogLeft n]\<rparr>))"

definition create_task :: "task \<Rightarrow> unit prog" where
  "create_task t s = (Return (), s\<lparr>tasks := tasks s @ [t]\<rparr>)"

definition kill :: "env \<Rightarrow> unit prog" where
  "kill env =
     and_then close (\<lambda>_.
     and_then (\<lambda>s. wait_removals env (groups s) s) (\<lambda>_.
     and_then (log_left env) (\<lambda>_.
     create_task (CallHook ''left''))))"

subsection \<open>\<open>raise_error_code\<close>\<close>

definition resolve :: "int \<Rightarrow> errval" where
  "resolve code = (case error_codes code of None \<Rightarrow> Sentinel | Some e \<Rightarrow> ExcClass e)"

definition raise_error_code :: "env \<Rightarrow> int \<Rightarrow> unit prog" where
  "raise_error_code env code =
     (let error = resolve code in
      and_then (call_error env error) (\<lambda>code' s.
        if code' = PInt (- 1) then
          (case as_int env of
             None \<Rightarrow> (Raise TypeError, s)
           | Some n \<Rightarrow> (Raise (py_raise error), s\<lparr>logged := logged s @ [LogRaised n error]\<rparr>))
        else (Return (), s)))"

subsection \<open>\<open>handshake\<close>\<close>

text \<open>
  The condition of the \<open>if\<close> in \<open>handshake\<close>:
  \<open>not(code['status'].lower() == 'okay') and not(code['version'] in supported_versions)\<close>.
  A missing key raises \<open>KeyError\<close>, a status that is not a string has no \<open>lower\<close>, and
  \<open>and\<close> does not evaluate its right operand when the left one is false.
\<close>

definition version_rejected :: "env \<Rightarrow> fields \<Rightarrow> bool prog" where
  "version_rejected env code s =
     (case code ''status'' of
        None \<Rightarrow> (Raise KeyError, s)
      | Some (PStr st) \<Rightarrow>
          if \<not> (lower st = ''okay'') then
            (case code ''version'' of
               None \<Rightarrow> (Raise KeyError, s)
             | Some v \<Rightarrow> (Return (\<not> (v \<in> set (supported_versions env))), s))
          else (Return False, s)
      | Some _ \<Rightarrow> (Raise AttributeError, s))"

definition handshake :: "env \<Rightarrow> nat option \<Rightarrow> unit prog" where
  "handshake env dl =
     and_then (send ''HANDSHAKE'' Map.empty) (\<lambda>_.
     and_then (expected dl ''HANDSHAKE'') (\<lambda>_.
     and_then (send ''PHASE 1'' [''server_version'' \<mapsto> version env]) (\<lambda>_.
     and_then (expected dl ''PHASE 1'') (\<lambda>(_, code).
     and_then (version_rejected env code) (\<lambda>rejected.
       if rejected then
         and_then (send ''BREAK'' Map.empty) (\<lambda>_ s. (Raise ValueError, s))
       else send ''HANDSHAKE'' Map.empty)))))"

subsection \<open>\<open>process\<close>\<close>





subsection \<open>\<open>listen\<close>\<close>

function dispatch_loop :: "state \<Rightarrow> unit result \<times> state" where
  "dispatch_loop s =
     (case recv None s of
        (Return (method, data), s') \<Rightarrow>
          dispatch_loop (s'\<lparr>tasks := tasks s' @ [Process method data]\<rparr>)
      | (Raise e, s') \<Rightarrow>
          if e = ValueError \<or> e = ConnectionResetError then (Return (), s')
          else (Raise e, s')
      | (Hang, s') \<Rightarrow> (Hang, s'))"
  by pat_completeness auto

text \<open>
  The loop terminates in the model: every message that \<open>recv\<close> returns uses up part of
  what the peer sends.
\<close>

termination dispatch_loop
proof (relation "measure (\<lambda>s. length (inbox s))")
  show "wf (measure (\<lambda>s. length (inbox s)))" by simp
next
  fix s s' :: state and r x m d
  assume rs: "(r, s') = recv None s" and r: "r = Return x" and x: "(m, d) = x"
  have shorter: "length es' < length es"
    if "recv_from dl clk es = (Return z, c, es')" for dl clk es z c es'
    using that
    by (induction dl clk es rule: recv_from.induct) (auto split: option.splits if_splits)
  from rs r have "length (inbox s') < length (inbox s)"
    by (auto simp: recv_def split: if_splits prod.splits dest: shorter)
  then show "(s'\<lparr>tasks := tasks s' @ [Process m d]\<rparr>, s) \<in> measure (\<lambda>s. length (inbox s))"
    by simp
qed

declare dispatch_loop.simps [simp del]

definition listen :: "env \<Rightarrow> unit prog" where
  "listen env = and_then dispatch_loop (\<lambda>_. kill env)"

subsection \<open>\<open>_register\<close> and \<open>register\<close>\<close>

definition log_registered :: "unit prog" where
  "log_registered s =
     (Return (), s\<lparr>logged := logged s @ [LogRegistered (addr s) (client_id s)]\<rparr>)"

definition register_inner :: "unit prog" where
  "register_inner =
     and_then add_client (\<lambda>_.
     and_then log_registered (\<lambda>_.
     create_task (CallHook ''join'')))"

text \<open>
  \<open>asyncio.wait_for(self.handshake(), 20)\<close>: the handshake runs against the deadline
  of 20 time units from now. Any exception, the timeout included, is answered with
  \<open>raise_error_code(2)\<close>; only a handshake that returns leads to \<open>_register\<close> and
  \<open>listen\<close>.
\<close>

definition register :: "env \<Rightarrow> unit prog" where
  "register env s =
     (case handshake env (Some (clock s + 20)) s of
        (Return _, s') \<Rightarrow> and_then register_inner (\<lambda>_. listen env) s'
      | (Raise e, s') \<Rightarrow> raise_error_code env 2 s'
      | (Hang, s') \<Rightarrow> (Hang, s'))"

section \<open>Notions used to state the properties\<close>

text \<open>
  The messages that the dispatch loop gets from a peer's behaviour: those that arrive
  before the first malformed frame or disconnection.
\<close>

fun received :: "event list \<Rightarrow> (string \<times> fields) list" where
  "received [] = []"
| "received (Message m d # es) = (m, d) # received es"
| "received (Wait n # es) = received es"
| "received (Malformed # es) = []"
| "received (Reset # es) = []"

text \<open>
  The state with the traffic of the transport blanked out, and the state with what the
  dispatch loop changes blanked out: two states agree on everything else when these
  projections are equal.
\<close>

definition off_wire :: "state \<Rightarrow> state" where
  "off_wire s = s\<lparr>clock := 0, inbox := [], sent := []\<rparr>"

definition off_loop :: "state \<Rightarrow> state" where
  "off_loop s = s\<lparr>clock := 0, inbox := [], tasks := []\<rparr>"

text \<open>
  Modelled from the spec: a \<open>Group.remove\<close> that does what the spec says of it and no
  more. It removes the session from the membership of that group; removing a
  non-member is a no-op. Sessions are compared by their identifier (\<open>Client.__eq__\<close>).
\<close>

definition remove_member :: "nat \<Rightarrow> int \<Rightarrow> nat list \<times> (nat \<Rightarrow> int list) \<Rightarrow> nat list \<times> (nat \<Rightarrow> int list)" where
  "remove_member g cid = (\<lambda>(gs, ms). (gs, ms(g := removeAll cid (ms g))))"

text \<open>
  A server with one handler and no error hook, for a session class whose base classes
  give it an integer conversion; the same server for \<open>Client\<close> as the source alone
  defines it; a session as \<open>__init__\<close> leaves it, and that session in two groups.
\<close>

definition example_env :: env where
  "example_env =
     \<lparr>version = PStr ''1.0'', supported_versions = [PStr ''1.0''],
      Request = [''foo'' \<mapsto> (\<lambda>data. Return PNone)],
      Request_attrs = [], call_other = (\<lambda>name data. Raise TypeError),
      error_hook = None, as_int = Some 1, Group_remove = remove_member\<rparr>"

definition plain_env :: env where
  "plain_env = example_env\<lparr>as_int := None\<rparr>"

definition new_session :: state where
  "new_session =
     \<lparr>closed = False, clock = 0, inbox = [], sent = [], client_id = 1, addr = ''peer'',
      groups = [], members = (\<lambda>g. []), registry = [], logged = [], tasks = [],
      signalled = [], invoked = []\<rparr>"

definition grouped_session :: state where
  "grouped_session = new_session\<lparr>groups := [0, 1], members := (\<lambda>g. if g \<le> 1 then [7, 1] else [7])\<rparr>"

section \<open>Facts about \<open>kill\<close>\<close>

lemma remove_one_frame:
  "closed (remove_one env g s) = closed s"
  "clock (remove_one env g s) = clock s"
  "inbox (remove_one env g s) = inbox s"
  "sent (remove_one env g s) = sent s"
  "client_id (remove_one env g s) = client_id s"
  "addr (remove_one env g s) = addr s"
  "registry (remove_one env g s) = registry s"
  "logged (remove_one env g s) = logged s"
  "tasks (remove_one env g s) = tasks s"
  "signalled (remove_one env g s) = signalled s"
  "invoked (remove_one env g s) = invoked s"
  by (simp_all add: remove_one_def split: prod.splits)

lemma fold_remove_frame:
  "closed (fold (remove_one env) gs s) = closed s"
  "clock (fold (remove_one env) gs s) = clock s"
  "inbox (fold (remove_one env) gs s) = inbox s"
  "sent (fold (remove_one env) gs s) = sent s"
  "client_id (fold (remove_one env) gs s) = client_id s"
  "addr (fold (remove_one env) gs s) = addr s"
  "registry (fold (remove_one env) gs s) = registry s"
  "logged (fold (remove_one env) gs s) = logged s"
  "tasks (fold (remove_one env) gs s) = tasks s"
  "signalled (fold (remove_one env) gs s) = signalled s"
  "invoked (fold (remove_one env) gs s) = invoked s"
  by (induction gs arbitrary: s; simp add: remove_one_frame)+

text \<open>The three ways \<open>kill\<close> can end.\<close>

lemma kill_unfold:
  "kill env s =
     (if groups s = [] then (Raise ValueError, s\<lparr>closed := True\<rparr>)
      else case as_int env of
             None \<Rightarrow> (Raise TypeError, fold (remove_one env) (groups s) (s\<lparr>closed := True\<rparr>))
           | Some n \<Rightarrow>
               (Return (),
                (fold (remove_one env) (groups s) (s\<lparr>closed := True\<rparr>))
                  \<lparr>logged := logged s @ [LogLeft n], tasks := tasks s @ [CallHook ''left'']\<rparr>))"
  by (simp add: kill_def and_then_def close_def wait_removals_def log_left_def
      create_task_def fold_remove_frame split: option.splits)

text \<open>
  \<open>kill\<close> itself only reads the session's list of groups: what the list and the
  membership collections are afterwards is what the removals leave.
\<close>

lemma kill_groups_by_removals:
  "groups (snd (kill env s)) = groups (fold (remove_one env) (groups s) (s\<lparr>closed := True\<rparr>))"
  "members (snd (kill env s)) = members (fold (remove_one env) (groups s) (s\<lparr>closed := True\<rparr>))"
  by (simp_all add: kill_unfold split: option.splits)

text \<open>With the removal the spec describes, the list stays and the memberships go.\<close>

lemma fold_remove_member:
  assumes "Group_remove env = remove_member"
  shows "groups (fold (remove_one env) gs s) = groups s"
    and "members (fold (remove_one env) gs s) g =
      (if g \<in> set gs then removeAll (client_id s) (members s g) else members s g)"
  using assms
  by (induction gs arbitrary: s; simp add: remove_one_def remove_member_def)+

text \<open>
  A session that is in at least one group, when the log line can be formatted: \<open>kill\<close>
  returns, the departure is logged and one \<open>left\<close> hook is scheduled. Closing the
  transport beforehand changes nothing.
\<close>

lemma kill_with_groups:
  assumes "groups s \<noteq> []" and "as_int env = Some n"
  shows "fst (kill env s) = Return ()"
    and "logged (snd (kill env s)) = logged s @ [LogLeft n]"
    and "tasks (snd (kill env s)) = tasks s @ [CallHook ''left'']"
    and "closed (snd (kill env s))"
  using assms by (simp_all add: kill_unfold fold_remove_frame)

lemma close_only_closes: "close s = (Return (), s\<lparr>closed := True\<rparr>)"
  by (simp add: close_def)

lemma kill_after_close:
  "and_then close (\<lambda>_. kill env) s = kill env s"
  by (simp add: and_then_def close_def kill_unfold split: option.splits)

section \<open>Facts about the dispatch loop\<close>

lemma recv_from_None_Return:
  "recv_from None clk es = (Return (m, d), c, es') \<Longrightarrow>
     received es = (m, d) # received es' \<and>
     ((Malformed \<in> set es \<or> Reset \<in> set es) = (Malformed \<in> set es' \<or> Reset \<in> set es'))"
  by (induction "None :: nat option" clk es rule: recv_from.induct) auto

lemma recv_from_None_Raise:
  "recv_from None clk es = (Raise e, c, es') \<Longrightarrow>
     received es = [] \<and> (Malformed \<in> set es \<or> Reset \<in> set es) \<and>
     (e = ValueError \<or> e = ConnectionResetError)"
  by (induction "None :: nat option" clk es rule: recv_from.induct) auto

lemma recv_from_None_Hang:
  "recv_from None clk es = (Hang, c, es') \<Longrightarrow>
     received es = [] \<and> \<not> (Malformed \<in> set es \<or> Reset \<in> set es)"
  by (induction "None :: nat option" clk es rule: recv_from.induct) auto

lemma recv_off_loop:
  "recv dl s = (r, s') \<Longrightarrow> off_loop s' = off_loop s \<and> tasks s' = tasks s \<and> closed s' = closed s"
  by (auto simp: recv_def off_loop_def split: if_splits prod.splits)

lemma dispatch_loop_closed: "closed s \<Longrightarrow> dispatch_loop s = (Return (), s)"
  by (simp add: dispatch_loop.simps recv_def)

text \<open>The loop touches the clock, the inbox and the scheduled tasks, nothing else.\<close>

lemma dispatch_loop_off_loop: "off_loop (snd (dispatch_loop s)) = off_loop s"
proof (induction s rule: dispatch_loop.induct)
  case (1 s)
  obtain r s' where rs: "recv None s = (r, s')" by (cases "recv None s")
  have fr: "off_loop s' = off_loop s" using recv_off_loop [OF rs] by simp
  show ?case
  proof (cases r)
    case (Return x)
    obtain m d where x: "x = (m, d)" by (cases x)
    have "off_loop (snd (dispatch_loop (s'\<lparr>tasks := tasks s' @ [Process m d]\<rparr>))) =
          off_loop (s'\<lparr>tasks := tasks s' @ [Process m d]\<rparr>)"
      using "1.IH" [OF rs [symmetric] Return x [symmetric]] .
    then show ?thesis using rs Return x fr
      by (simp add: dispatch_loop.simps [of s] off_loop_def)
  next
    case (Raise e)
    then show ?thesis using rs fr by (simp add: dispatch_loop.simps [of s])
  next
    case Hang
    then show ?thesis using rs fr by (simp add: dispatch_loop.simps [of s])
  qed
qed

text \<open>
  How the loop ends and what it has scheduled by then: one \<open>process\<close> task for each
  message received, in order.
\<close>

lemma dispatch_loop_outcome:
  "fst (dispatch_loop s) =
     (if closed s \<or> Malformed \<in> set (inbox s) \<or> Reset \<in> set (inbox s) then Return () else Hang) \<and>
   tasks (snd (dispatch_loop s)) =
     tasks s @ map (\<lambda>(m, d). Process m d) (if closed s then [] else received (inbox s))"
proof (induction s rule: dispatch_loop.induct)
  case (1 s)
  show ?case
  proof (cases "closed s")
    case True
    then show ?thesis by (simp add: dispatch_loop_closed)
  next
    case False
    obtain r c es where rf: "recv_from None (clock s) (inbox s) = (r, c, es)"
      by (cases "recv_from None (clock s) (inbox s)")
    let ?s' = "s\<lparr>clock := c, inbox := es\<rparr>"
    have rs: "recv None s = (r, ?s')" using False rf by (simp add: recv_def)
    show ?thesis
    proof (cases r)
      case (Return x)
      obtain m d where x: "x = (m, d)" by (cases x)
      note ih = "1.IH" [OF rs [symmetric] Return x [symmetric]]
      from rf Return x have "received (inbox s) = (m, d) # received es"
        and "(Malformed \<in> set (inbox s) \<or> Reset \<in> set (inbox s)) =
             (Malformed \<in> set es \<or> Reset \<in> set es)"
        using recv_from_None_Return by blast+
      then show ?thesis using ih rs Return x False
        by (simp add: dispatch_loop.simps [of s])
    next
      case (Raise e)
      with rf have "received (inbox s) = []"
        "Malformed \<in> set (inbox s) \<or> Reset \<in> set (inbox s)"
        "e = ValueError \<or> e = ConnectionResetError"
        using recv_from_None_Raise by blast+
      then show ?thesis using rs Raise False
        by (simp add: dispatch_loop.simps [of s])
    next
      case Hang
      with rf have "received (inbox s) = []"
        "\<not> (Malformed \<in> set (inbox s) \<or> Reset \<in> set (inbox s))"
        using recv_from_None_Hang by blast+
      then show ?thesis using rs Hang False
        by (simp add: dispatch_loop.simps [of s])
    qed
  qed
qed

section \<open>Facts about the examples\<close>


lemma grouped_session_fields:
  "closed grouped_session = False" "clock grouped_session = 0" "inbox grouped_session = []"
  "sent grouped_session = []" "client_id grouped_session = 1" "groups grouped_session = [0, 1]"
  "registry grouped_session = []" "logged grouped_session = []" "tasks grouped_session = []"
  "signalled grouped_session = []" "invoked grouped_session = []"
  "members grouped_session = (\<lambda>g. if g \<le> 1 then [7, 1] else [7])"
  by (simp_all add: grouped_session_def new_session_def)

section \<open>Facts about the handshake\<close>

text \<open>
  The handshake only uses the transport, and under a deadline it cannot wait forever.
\<close>

lemma lower_okay: "lower ''okay'' = ''okay''" by code_simp

lemma and_then_off_wire:
  assumes "\<And>s. off_wire (snd (m s)) = off_wire s"
    and "\<And>x s. off_wire (snd (f x s)) = off_wire s"
  shows "off_wire (snd (and_then m f s)) = off_wire s"
proof (cases "m s")
  case (Pair r s1)
  have a: "off_wire s1 = off_wire s" using assms(1) [of s] Pair by simp
  show ?thesis
  proof (cases r)
    case (Return x)
    then show ?thesis using Pair a assms(2) [of x s1] by (simp add: and_then_def)
  qed (use Pair a in \<open>simp_all add: and_then_def\<close>)
qed

lemma send_off_wire: "off_wire (snd (send m k s)) = off_wire s"
  by (simp add: send_def off_wire_def)

lemma recv_off_wire: "off_wire (snd (recv dl s)) = off_wire s"
  by (simp add: recv_def off_wire_def split: prod.splits)

lemma expected_off_wire: "off_wire (snd (expected dl m s)) = off_wire s"
  unfolding expected_def
  by (rule and_then_off_wire) (simp_all add: recv_off_wire split: prod.splits)

lemma version_rejected_off_wire: "off_wire (snd (version_rejected env code s)) = off_wire s"
  by (simp add: version_rejected_def split: option.splits pyval.splits)

lemma handshake_off_wire: "off_wire (snd (handshake env dl s)) = off_wire s"
  unfolding handshake_def
  by (intro and_then_off_wire)
     (simp_all add: send_off_wire expected_off_wire version_rejected_off_wire and_then_off_wire
        split: prod.splits)

lemma recv_from_deadline: "fst (recv_from (Some d) clk es) \<noteq> Hang"
  by (induction "Some d" clk es rule: recv_from.induct) auto

lemma and_then_no_hang:
  assumes "\<And>s. fst (m s) \<noteq> Hang" and "\<And>x s. fst (f x s) \<noteq> Hang"
  shows "fst (and_then m f s) \<noteq> Hang"
proof (cases "m s")
  case (Pair r s1)
  show ?thesis
  proof (cases r)
    case (Return x)
    then show ?thesis using Pair assms(2) [of x s1] by (simp add: and_then_def)
  next
    case Hang
    then show ?thesis using Pair assms(1) [of s] by simp
  qed (use Pair in \<open>simp_all add: and_then_def\<close>)
qed

lemma recv_no_hang: "fst (recv (Some d) s) \<noteq> Hang"
  using recv_from_deadline [of d "clock s" "inbox s"]
  by (auto simp: recv_def split: prod.splits)

lemma expected_no_hang: "fst (expected (Some d) m s) \<noteq> Hang"
  unfolding expected_def
  by (rule and_then_no_hang) (simp_all add: recv_no_hang split: prod.splits)

lemma send_no_hang: "fst (send m k s) \<noteq> Hang"
  by (simp add: send_def)

lemma version_rejected_no_hang: "fst (version_rejected env code s) \<noteq> Hang"
  by (simp add: version_rejected_def split: option.splits pyval.splits)

lemma handshake_no_hang: "fst (handshake env (Some d) s) \<noteq> Hang"
  unfolding handshake_def
  by (intro and_then_no_hang)
     (simp_all add: send_no_hang expected_no_hang version_rejected_no_hang and_then_no_hang
        split: prod.splits)

lemma off_wire_fields:
  "off_wire s' = off_wire s \<Longrightarrow>
     closed s' = closed s \<and> client_id s' = client_id s \<and> addr s' = addr s \<and>
     groups s' = groups s \<and> members s' = members s \<and> registry s' = registry s \<and>
     logged s' = logged s \<and> tasks s' = tasks s \<and> signalled s' = signalled s \<and>
     invoked s' = invoked s"
  by (cases s, cases s') (simp add: off_wire_def)

text \<open>
  What the test in \<open>handshake\<close> computes for a reply with both fields: the reply is
  rejected when the status is not \<open>okay\<close> and, at the same time, the version is not
  supported.
\<close>

lemma version_rejected_both:
  "code ''status'' = Some (PStr st) \<Longrightarrow> code ''version'' = Some v \<Longrightarrow>
     version_rejected env code s =
       (Return (lower st \<noteq> ''okay'' \<and> v \<notin> set (supported_versions env)), s)"
  by (simp add: version_rejected_def)

section \<open>Facts about error signalling\<close>

lemma raise_error_code_unfold:
  "raise_error_code env code s =
     (if hook_answer env (resolve code) = PInt (- 1) then
        (case as_int env of
           None \<Rightarrow> (Raise TypeError, s\<lparr>signalled := signalled s @ [resolve code]\<rparr>)
         | Some n \<Rightarrow>
             (Raise (py_raise (resolve code)),
              s\<lparr>signalled := signalled s @ [resolve code],
                logged := logged s @ [LogRaised n (resolve code)]\<rparr>))
      else (Return (), s\<lparr>signalled := signalled s @ [resolve code]\<rparr>))"
  by (simp add: raise_error_code_def and_then_def call_error_def Let_def split: option.splits)

lemma resolve_table: "resolve 2 = ExcClass HandshakeError" "resolve 6 = ExcClass Recved404Error"
  by (simp_all add: resolve_def error_codes_def)

text \<open>
  When \<open>raise_error_code\<close> raises and what: an exception leaves it exactly when the
  hook's answer is \<open>-1\<close>; it is the one \<open>raise error\<close> produces if the log line before
  it can be formatted, and the \<open>TypeError\<close> of the format otherwise.
\<close>

lemma raise_error_code_outcome:
  "(\<exists>e. fst (raise_error_code env code s) = Raise e) = (hook_answer env (resolve code) = PInt (- 1))"
  "(fst (raise_error_code env code s) = Return ()) = (hook_answer env (resolve code) \<noteq> PInt (- 1))"
  "hook_answer env (resolve code) = PInt (- 1) \<Longrightarrow> as_int env = Some n \<Longrightarrow>
     fst (raise_error_code env code s) = Raise (py_raise (resolve code))"
  "hook_answer env (resolve code) = PInt (- 1) \<Longrightarrow> as_int env = None \<Longrightarrow>
     fst (raise_error_code env code s) = Raise TypeError"
  by (auto simp: raise_error_code_unfold split: option.splits)

section \<open>Facts about \<open>listen\<close>\<close>

lemma off_loop_fields:
  "off_loop s' = off_loop s \<Longrightarrow>
     closed s' = closed s \<and> sent s' = sent s \<and> client_id s' = client_id s \<and> addr s' = addr s \<and>
     groups s' = groups s \<and> members s' = members s \<and> registry s' = registry s \<and>
     logged s' = logged s \<and> signalled s' = signalled s \<and> invoked s' = invoked s"
  by (cases s, cases s') (simp add: off_loop_def)

lemma listen_unfold:
  "listen env s =
     (if closed s \<or> Malformed \<in> set (inbox s) \<or> Reset \<in> set (inbox s)
      then kill env (snd (dispatch_loop s))
      else (Hang, snd (dispatch_loop s)))"
  using dispatch_loop_outcome [of s]
  by (cases "dispatch_loop s") (auto simp: listen_def and_then_def)

lemma listen_registry: "registry (snd (listen env s)) = registry s"
  using off_loop_fields [OF dispatch_loop_off_loop [of s]]
  by (simp add: listen_unfold kill_unfold fold_remove_frame split: option.splits)

lemma listen_joins:
  "filter (\<lambda>t. t = CallHook ''join'') (tasks (snd (listen env s))) =
   filter (\<lambda>t. t = CallHook ''join'') (tasks s)"
proof -
  have "filter (\<lambda>t. t = CallHook ''join'') (map (\<lambda>(m, d). Process m d) ms) = []" for ms
    by (induction ms) auto
  then show ?thesis
    using dispatch_loop_outcome [of s]
    by (simp add: listen_unfold kill_unfold fold_remove_frame split: option.splits)
qed

section \<open>The claims\<close>

text \<open>
  Claim C1, at an input where the code departs from it. The peer answers \<open>PHASE 1\<close>
  with status \<open>okay\<close> and the version \<open>9.9\<close>, which the server does not support. The
  claim asks for \<open>BREAK\<close> and a failed handshake. The code tests
  \<open>not okay and not supported\<close>, so it sends the final \<open>HANDSHAKE\<close> and returns.
\<close>

theorem handshake_admits_unsupported_version:
  "handshake example_env (Some 20)
     (new_session\<lparr>inbox :=
        [Message ''HANDSHAKE'' Map.empty,
         Message ''PHASE 1'' [''status'' \<mapsto> PStr ''okay'', ''version'' \<mapsto> PStr ''9.9'']]\<rparr>)
   = (Return (),
      new_session\<lparr>sent :=
        [(''HANDSHAKE'', Map.empty),
         (''PHASE 1'', [''server_version'' \<mapsto> PStr ''1.0'']),
         (''HANDSHAKE'', Map.empty)]\<rparr>)"
  by (simp add: handshake_def and_then_def send_def expected_def recv_def version_rejected_def
      new_session_def example_env_def lower_okay)

text \<open>
  Claim C2, at an input where the code departs from it. For a session that belongs to
  no group, \<open>asyncio.wait\<close> gets an empty list and raises \<open>ValueError\<close>: \<open>kill()\<close> ends
  there, with the transport closed, nothing logged and no \<open>left\<close> hook scheduled.
\<close>

theorem kill_without_groups:
  "groups new_session = [] \<and>
   kill example_env new_session = (Raise ValueError, new_session\<lparr>closed := True\<rparr>) \<and>
   logged (snd (kill example_env new_session)) = [] \<and>
   tasks (snd (kill example_env new_session)) = []"
  by (simp add: kill_unfold new_session_def)

text \<open>
  Claim C3. The peer echoes \<open>HANDSHAKE\<close> and answers \<open>PHASE 1\<close> with a status that
  reads \<open>okay\<close> and a version the server supports, both within the deadline. Then
  \<open>register()\<close> goes on as \<open>listen()\<close> from the state in which the three handshake
  messages are sent, the session is in the server's registry, the registration is
  logged and the \<open>join\<close> hook is scheduled. Nothing later adds the session again or
  schedules a second \<open>join\<close>: when \<open>register()\<close> is over, the registry has grown by
  this session and the scheduled tasks by one \<open>join\<close>.
\<close>

theorem register_success:
  assumes "\<not> closed s"
    and "inbox s = Wait a # Message ''HANDSHAKE'' echo # Wait b # Message ''PHASE 1'' code # rest"
    and "a + b < 20"
    and "code ''status'' = Some (PStr st)" and "lower st = ''okay''"
    and "code ''version'' = Some v" and "v \<in> set (supported_versions env)"
  shows "register env s =
      listen env
        (s\<lparr>clock := clock s + a + b, inbox := rest,
           sent := sent s @
             [(''HANDSHAKE'', Map.empty),
              (''PHASE 1'', [''server_version'' \<mapsto> version env]),
              (''HANDSHAKE'', Map.empty)],
           registry := registry s @ [client_id s],
           logged := logged s @ [LogRegistered (addr s) (client_id s)],
           tasks := tasks s @ [CallHook ''join'']\<rparr>) \<and>
     registry (snd (register env s)) = registry s @ [client_id s] \<and>
     filter (\<lambda>t. t = CallHook ''join'') (tasks (snd (register env s))) =
       filter (\<lambda>t. t = CallHook ''join'') (tasks s) @ [CallHook ''join'']"
proof -
  have h: "handshake env (Some (clock s + 20)) s =
      (Return (),
       s\<lparr>clock := clock s + a + b, inbox := rest,
         sent := sent s @
           [(''HANDSHAKE'', Map.empty),
            (''PHASE 1'', [''server_version'' \<mapsto> version env]),
            (''HANDSHAKE'', Map.empty)]\<rparr>)"
    using assms
    by (simp add: handshake_def and_then_def send_def expected_def recv_def version_rejected_def)
  have r: "register env s =
      listen env
        (s\<lparr>clock := clock s + a + b, inbox := rest,
           sent := sent s @
             [(''HANDSHAKE'', Map.empty),
              (''PHASE 1'', [''server_version'' \<mapsto> version env]),
              (''HANDSHAKE'', Map.empty)],
           registry := registry s @ [client_id s],
           logged := logged s @ [LogRegistered (addr s) (client_id s)],
           tasks := tasks s @ [CallHook ''join'']\<rparr>)"
    by (simp add: register_def h and_then_def register_inner_def add_client_def
        log_registered_def create_task_def)
  show ?thesis
    unfolding r by (simp add: listen_registry listen_joins)
qed

theorem register_success_witness:
  "\<not> closed (grouped_session\<lparr>inbox :=
      [Wait 3, Message ''HANDSHAKE'' Map.empty, Wait 4,
       Message ''PHASE 1'' [''status'' \<mapsto> PStr ''okay'', ''version'' \<mapsto> PStr ''1.0''],
       Reset]\<rparr>) \<and>
   (3::nat) + 4 < 20 \<and> lower ''okay'' = ''okay'' \<and>
   PStr ''1.0'' \<in> set (supported_versions example_env) \<and>
   registry (snd (register example_env (grouped_session\<lparr>inbox :=
      [Wait 3, Message ''HANDSHAKE'' Map.empty, Wait 4,
       Message ''PHASE 1'' [''status'' \<mapsto> PStr ''okay'', ''version'' \<mapsto> PStr ''1.0''],
       Reset]\<rparr>))) = [1] \<and>
   filter (\<lambda>t. t = CallHook ''join'')
     (tasks (snd (register example_env (grouped_session\<lparr>inbox :=
      [Wait 3, Message ''HANDSHAKE'' Map.empty, Wait 4,
       Message ''PHASE 1'' [''status'' \<mapsto> PStr ''okay'', ''version'' \<mapsto> PStr ''1.0''],
       Reset]\<rparr>)))) = [CallHook ''join'']"
proof -
  let ?code = "[''status'' \<mapsto> PStr ''okay'', ''version'' \<mapsto> PStr ''1.0'']"
  let ?s = "grouped_session\<lparr>inbox :=
      [Wait 3, Message ''HANDSHAKE'' Map.empty, Wait 4, Message ''PHASE 1'' ?code, Reset]\<rparr>"
  have h1: "\<not> closed ?s" by (simp add: grouped_session_fields)
  have h2: "inbox ?s =
      Wait 3 # Message ''HANDSHAKE'' Map.empty # Wait 4 # Message ''PHASE 1'' ?code # [Reset]"
    by simp
  have h3: "(3::nat) + 4 < 20" by simp
  have h4: "?code ''status'' = Some (PStr ''okay'')" by simp
  have h6: "?code ''version'' = Some (PStr ''1.0'')" by simp
  have h7: "PStr ''1.0'' \<in> set (supported_versions example_env)" by (simp add: example_env_def)
  from register_success [OF h1 h2 h3 h4 lower_okay h6 h7, THEN conjunct2] h1 h7 lower_okay
  show ?thesis by (simp add: grouped_session_fields)
qed

text \<open>
  Claim C4. When the handshake, run against the deadline of 20 time units, does not
  return normally (it cannot hang, so it raised: a timeout, a closed transport, a wrong
  method name, a rejected reply), \<open>register()\<close> is exactly \<open>raise_error_code(2)\<close> on the
  state the handshake left: \<open>HandshakeError\<close> is given to the error hook, the session is
  not added to the server's registry, no task is scheduled (no \<open>join\<close> hook, no
  \<open>process\<close>), and the transport is left as it was.
\<close>

theorem register_handshake_failure:
  assumes "fst (handshake env (Some (clock s + 20)) s) \<noteq> Return ()"
  shows "register env s = raise_error_code env 2 (snd (handshake env (Some (clock s + 20)) s)) \<and>
     signalled (snd (register env s)) = signalled s @ [ExcClass HandshakeError] \<and>
     registry (snd (register env s)) = registry s \<and>
     tasks (snd (register env s)) = tasks s \<and>
     closed (snd (register env s)) = closed s"
proof -
  obtain r s1 where h: "handshake env (Some (clock s + 20)) s = (r, s1)"
    by (cases "handshake env (Some (clock s + 20)) s")
  from assms h handshake_no_hang [of env "clock s + 20" s] obtain e where r: "r = Raise e"
    by (cases r) auto
  have reg: "register env s = raise_error_code env 2 s1"
    using h r by (simp add: register_def)
  have "off_wire s1 = off_wire s" using handshake_off_wire [of env "Some (clock s + 20)" s] h by simp
  note fr = off_wire_fields [OF this]
  show ?thesis using reg h fr
    by (simp add: raise_error_code_unfold resolve_table split: option.splits)
qed

theorem register_handshake_failure_witness:
  "fst (handshake example_env (Some (clock (new_session\<lparr>inbox := [Wait 25]\<rparr>) + 20))
          (new_session\<lparr>inbox := [Wait 25]\<rparr>)) = Raise TimeoutError \<and>
   fst (register example_env (new_session\<lparr>inbox := [Wait 25]\<rparr>)) = Raise HandshakeError \<and>
   signalled (snd (register example_env (new_session\<lparr>inbox := [Wait 25]\<rparr>))) =
     [ExcClass HandshakeError] \<and>
   registry (snd (register example_env (new_session\<lparr>inbox := [Wait 25]\<rparr>))) = [] \<and>
   tasks (snd (register example_env (new_session\<lparr>inbox := [Wait 25]\<rparr>))) = []"
proof -
  have t: "handshake example_env (Some (clock (new_session\<lparr>inbox := [Wait 25]\<rparr>) + 20))
             (new_session\<lparr>inbox := [Wait 25]\<rparr>) =
           (Raise TimeoutError,
            new_session\<lparr>clock := 20, sent := [(''HANDSHAKE'', Map.empty)]\<rparr>)"
    by (simp add: handshake_def and_then_def send_def expected_def recv_def new_session_def)
  then have "fst (handshake example_env (Some (clock (new_session\<lparr>inbox := [Wait 25]\<rparr>) + 20))
          (new_session\<lparr>inbox := [Wait 25]\<rparr>)) \<noteq> Return ()"
    by simp
  from register_handshake_failure [OF this] t show ?thesis
    by (simp add: raise_error_code_unfold resolve_table hook_answer_def example_env_def
        new_session_def)
qed

text \<open>
  Claim C5. The \<open>while\<close> loop of \<open>listen\<close> never raises. It ends exactly when \<open>recv\<close>
  fails with a malformed frame or a closed connection (the transport is already closed,
  or the peer sends a malformed frame or disconnects); with a peer that only falls
  silent it waits forever. The loop leaves the transport, the groups and the log alone
  and schedules one \<open>process\<close> per message received. When it ends, \<open>listen\<close> is \<open>kill\<close>,
  run once, on the state the loop left.
\<close>

theorem listen_ends_with_kill:
  "fst (dispatch_loop s) =
     (if closed s \<or> Malformed \<in> set (inbox s) \<or> Reset \<in> set (inbox s) then Return () else Hang) \<and>
   listen env s =
     (if closed s \<or> Malformed \<in> set (inbox s) \<or> Reset \<in> set (inbox s)
      then kill env (snd (dispatch_loop s))
      else (Hang, snd (dispatch_loop s))) \<and>
   closed (snd (dispatch_loop s)) = closed s \<and>
   groups (snd (dispatch_loop s)) = groups s \<and>
   members (snd (dispatch_loop s)) = members s \<and>
   logged (snd (dispatch_loop s)) = logged s \<and>
   tasks (snd (dispatch_loop s)) =
     tasks s @ map (\<lambda>(m, d). Process m d) (if closed s then [] else received (inbox s))"
  using dispatch_loop_outcome [of s] listen_unfold [of env s]
    off_loop_fields [OF dispatch_loop_off_loop [of s]]
  by simp

theorem listen_ends_with_kill_witness:
  "fst (listen example_env (grouped_session\<lparr>inbox :=
      [Message ''foo'' Map.empty, Wait 5, Message ''bar'' Map.empty, Reset,
       Message ''foo'' Map.empty]\<rparr>)) = Return () \<and>
   tasks (snd (listen example_env (grouped_session\<lparr>inbox :=
      [Message ''foo'' Map.empty, Wait 5, Message ''bar'' Map.empty, Reset,
       Message ''foo'' Map.empty]\<rparr>))) =
     [Process ''foo'' Map.empty, Process ''bar'' Map.empty, CallHook ''left''] \<and>
   logged (snd (listen example_env (grouped_session\<lparr>inbox :=
      [Message ''foo'' Map.empty, Wait 5, Message ''bar'' Map.empty, Reset,
       Message ''foo'' Map.empty]\<rparr>))) = [LogLeft 1] \<and>
   fst (listen example_env (grouped_session\<lparr>inbox := [Message ''foo'' Map.empty]\<rparr>)) = Hang"
proof -
  let ?s = "grouped_session\<lparr>inbox :=
      [Message ''foo'' Map.empty, Wait 5, Message ''bar'' Map.empty, Reset,
       Message ''foo'' Map.empty]\<rparr>"
  have a: "listen example_env ?s = kill example_env (snd (dispatch_loop ?s))"
    and b: "groups (snd (dispatch_loop ?s)) = [0, 1]"
    and c: "logged (snd (dispatch_loop ?s)) = []"
    and d: "tasks (snd (dispatch_loop ?s)) = [Process ''foo'' Map.empty, Process ''bar'' Map.empty]"
    using listen_ends_with_kill [of ?s example_env]
    by (simp_all add: grouped_session_fields)
  have e: "fst (listen example_env (grouped_session\<lparr>inbox := [Message ''foo'' Map.empty]\<rparr>)) = Hang"
    using listen_ends_with_kill [of "grouped_session\<lparr>inbox := [Message ''foo'' Map.empty]\<rparr>" example_env]
    by (simp add: grouped_session_fields)
  show ?thesis
    unfolding a using b c d e
    by (simp add: kill_unfold example_env_def fold_remove_frame)
qed






text \<open>
  Claim C7, at inputs where the code departs from it. No error hook is registered, so
  the hook's answer is \<open>-1\<close>. For \<open>Client\<close> as the source defines it, code 2 resolves
  to \<open>HandshakeError\<close>, but the log line \<open>'Client %d raised %s ...' % (self, error)\<close>
  raises \<open>TypeError\<close> before \<open>raise error\<close> is reached. For a code outside the table,
  such as 99, \<open>raise error\<close> is \<open>raise -1\<close>, which is a \<open>TypeError\<close> as well, whether or
  not the log line can be formatted.
\<close>

theorem raise_error_code_raises_TypeError:
  "hook_answer plain_env (resolve 2) = PInt (- 1) \<and>
   resolve 2 = ExcClass HandshakeError \<and>
   fst (raise_error_code plain_env 2 new_session) = Raise TypeError \<and>
   hook_answer example_env (resolve 99) = PInt (- 1) \<and>
   resolve 99 = Sentinel \<and>
   fst (raise_error_code example_env 99 new_session) = Raise TypeError \<and>
   fst (raise_error_code plain_env 99 new_session) = Raise TypeError"
  by (simp add: raise_error_code_unfold resolve_def error_codes_def hook_answer_def
      plain_env_def example_env_def)

text \<open>
  Claim C8. A code that is not a key of \<open>error_codes\<close> resolves to the sentinel \<open>-1\<close>:
  that is the value \<open>raise_error_code\<close> gives to the error hook, and the lookup raises
  no \<open>KeyError\<close>.
\<close>

theorem undefined_code_resolves_to_sentinel:
  assumes "error_codes code = None"
  shows "resolve code = Sentinel \<and>
     signalled (snd (raise_error_code env code s)) = signalled s @ [Sentinel] \<and>
     fst (raise_error_code env code s) \<noteq> Raise KeyError"
proof -
  have "resolve code = Sentinel" using assms by (simp add: resolve_def)
  then show ?thesis by (simp add: raise_error_code_unfold split: option.splits)
qed

theorem undefined_code_resolves_to_sentinel_witness:
  "error_codes 99 = None \<and> resolve 99 = Sentinel \<and>
   signalled (snd (raise_error_code example_env 99 new_session)) = [Sentinel] \<and>
   fst (raise_error_code example_env 99 new_session) \<noteq> Raise KeyError"
proof -
  have "error_codes 99 = None" by (simp add: error_codes_def)
  from this undefined_code_resolves_to_sentinel [OF this, of example_env new_session]
  show ?thesis by (simp add: new_session_def)
qed

text \<open>
  Claim C9, at an input where the code departs from it. \<open>close()\<close> only closes the
  transport. For a session that belongs to no group, the \<open>kill()\<close> that follows raises
  \<open>ValueError\<close> out of \<open>asyncio.wait\<close> and schedules no \<open>left\<close> hook.
\<close>

theorem close_then_kill_without_groups:
  "close new_session = (Return (), new_session\<lparr>closed := True\<rparr>) \<and>
   and_then close (\<lambda>_. kill example_env) new_session =
     (Raise ValueError, new_session\<lparr>closed := True\<rparr>) \<and>
   tasks (snd (and_then close (\<lambda>_. kill example_env) new_session)) = []"
  by (simp add: kill_unfold new_session_def and_then_def close_def)

end
